theory Spec2Isabelle
  imports Main "HOL-Library.Word"
begin

section \<open>geteltorito.py: extraction of the El Torito boot image\<close>

text \<open>
  The program reads a CD image, checks the boot record volume descriptor in sector 17,
  follows its pointer to the boot catalog, checks the Validation Entry, unpacks the
  Initial/Default Entry, sizes the boot image from the media type and writes the image.
  Everything happens in \<^verbatim>\<open>main\<close>, on top of one helper, \<^verbatim>\<open>get_sector\<close>.

  The embedding follows the text of \<^verbatim>\<open>main\<close> from the first read (line 71) to the
  last write (line 181). Command line parsing, the readability test of the path and the
  choice between an output file and standard output are left out: the model starts from
  the opened image and returns the bytes that are written. Informational lines on the
  error stream are not modelled; each fatal message is a constructor of \<open>error\<close>.
  The program is read as Python 3.12 or later, where the backslash inside the replacement
  field of line 107 is accepted.
\<close>

subsection \<open>The image file and the sector reader\<close>

type_synonym byte = "8 word"

definition V_SEC_SIZE :: nat where
  "V_SEC_SIZE = 512"

definition SEC_SIZE :: nat where
  "SEC_SIZE = 2048"

text \<open>
  An opened image: its bytes, and the reads on which the operating system reports an
  error (\<open>io_error file offset size\<close>). Every read of the program seeks to an absolute
  offset first, so the cursor is not part of the state.
\<close>

record image_file =
  content :: "byte list"
  io_error :: "nat \<Rightarrow> nat \<Rightarrow> bool"

text \<open>
  \<^verbatim>\<open>get_sector(file, sec_num, sec_count)\<close>, lines 21 to 31: seek to
  \<^verbatim>\<open>sec_num * SEC_SIZE\<close>, read \<^verbatim>\<open>V_SEC_SIZE * sec_count\<close> bytes. Python's
  \<^verbatim>\<open>read(n)\<close> returns the bytes that are there, at most \<open>n\<close> of them, and the empty
  bytes object at or past the end of the file. An \<^verbatim>\<open>IOError\<close> is caught and turned into
  \<^verbatim>\<open>None\<close>.
\<close>

definition get_sector :: "image_file \<Rightarrow> nat \<Rightarrow> nat \<Rightarrow> byte list option" where
  "get_sector file sec_num sec_count =
     (if io_error file (sec_num * SEC_SIZE) (V_SEC_SIZE * sec_count) then None
      else Some (take (V_SEC_SIZE * sec_count) (drop (sec_num * SEC_SIZE) (content file))))"

text \<open>
  The truth value of a read result as \<^verbatim>\<open>if not sector\<close> and \<^verbatim>\<open>if image\<close> test it:
  \<^verbatim>\<open>None\<close> and the empty bytes object are both false.
\<close>

definition truthy :: "byte list option \<Rightarrow> byte list option" where
  "truthy r = (case r of None \<Rightarrow> None | Some b \<Rightarrow> if b = [] then None else Some b)"

subsection \<open>Python's \<^verbatim>\<open>struct.unpack\<close>, \<^verbatim>\<open>bytes.strip\<close> and \<^verbatim>\<open>bytes.decode\<close>\<close>

text \<open>
  The exceptions that reach the handler \<^verbatim>\<open>except Exception\<close> of line 186.
  \<^verbatim>\<open>sys.exit\<close> raises \<^verbatim>\<open>SystemExit\<close>, which that handler does not catch.
\<close>

datatype exn = StructError | UnicodeDecodeError | ValueError

datatype val = VInt nat | VBytes "byte list"

text \<open>
  A format of \<^verbatim>\<open>struct\<close> is a byte order mark followed by items, each a format
  character with an optional decimal count in front. The model covers the mark \<^verbatim>\<open><\<close>
  (little-endian, standard sizes, no alignment) and the four format characters of the
  program's formats: \<^verbatim>\<open>B\<close>, \<^verbatim>\<open>H\<close> and \<^verbatim>\<open>I\<close> are unsigned integers of 1, 2 and 4
  bytes, the count repeating them; \<^verbatim>\<open>s\<close> is one bytes value of count bytes. Any other
  character is refused with \<^verbatim>\<open>struct.error\<close>, as the module refuses \<^verbatim>\<open>_\<close>, the only
  other character that occurs in the program's formats. White space before an item is
  skipped; a count with no format character after it is an error.
\<close>

datatype item = UInt nat nat | Str nat

fun le_nat :: "byte list \<Rightarrow> nat" where
  "le_nat [] = 0"
| "le_nat (b # bs) = unat b + 256 * le_nat bs"

definition is_digit :: "char \<Rightarrow> bool" where
  "is_digit c = (48 \<le> (of_char c :: nat) \<and> (of_char c :: nat) \<le> 57)"

definition digit_val :: "char \<Rightarrow> nat" where
  "digit_val c = of_char c - 48"

definition is_space :: "char \<Rightarrow> bool" where
  "is_space c =
     ((of_char c :: nat) = 32 \<or> (9 \<le> (of_char c :: nat) \<and> (of_char c :: nat) \<le> 13))"

definition item_of :: "char \<Rightarrow> nat \<Rightarrow> item option" where
  "item_of c n =
     (if c = CHR ''B'' then Some (UInt n 1)
      else if c = CHR ''H'' then Some (UInt n 2)
      else if c = CHR ''I'' then Some (UInt n 4)
      else if c = CHR ''s'' then Some (Str n)
      else None)"

fun parse_items :: "string \<Rightarrow> nat option \<Rightarrow> item list option" where
  "parse_items [] None = Some []"
| "parse_items [] (Some n) = None"
| "parse_items (c # cs) cnt =
     (if is_digit c
      then parse_items cs (Some (10 * (case cnt of None \<Rightarrow> 0 | Some n \<Rightarrow> n) + digit_val c))
      else if is_space c \<and> cnt = None then parse_items cs None
      else (case item_of c (case cnt of None \<Rightarrow> 1 | Some n \<Rightarrow> n) of
              None \<Rightarrow> None
            | Some it \<Rightarrow> map_option (\<lambda>r. it # r) (parse_items cs None)))"

definition struct_format :: "string \<Rightarrow> item list option" where
  "struct_format fmt =
     (case fmt of
        [] \<Rightarrow> None
      | c # cs \<Rightarrow> if c = CHR ''<'' then parse_items cs None else None)"

fun item_size :: "item \<Rightarrow> nat" where
  "item_size (UInt n w) = n * w"
| "item_size (Str n) = n"

definition calcsize :: "item list \<Rightarrow> nat" where
  "calcsize its = sum_list (map item_size its)"

fun unpack_items :: "item list \<Rightarrow> byte list \<Rightarrow> val list" where
  "unpack_items [] buf = []"
| "unpack_items (Str n # its) buf = VBytes (take n buf) # unpack_items its (drop n buf)"
| "unpack_items (UInt n w # its) buf =
     map (\<lambda>k. VInt (le_nat (take w (drop (k * w) buf)))) [0..<n]
       @ unpack_items its (drop (n * w) buf)"

text \<open>
  \<^verbatim>\<open>struct.unpack(fmt, buf)\<close>: the format is compiled first, then the length of the
  buffer must be the size of the format exactly; both failures raise \<^verbatim>\<open>struct.error\<close>.
\<close>

definition unpack :: "string \<Rightarrow> byte list \<Rightarrow> exn + val list" where
  "unpack fmt buf =
     (case struct_format fmt of
        None \<Rightarrow> Inl StructError
      | Some its \<Rightarrow>
          if length buf \<noteq> calcsize its then Inl StructError
          else Inr (unpack_items its buf))"

text \<open>
  \<^verbatim>\<open>b.decode("ascii")\<close> raises on a byte of 128 or more;
  \<^verbatim>\<open>b.decode("ascii", "ignore")\<close> drops such bytes.
\<close>

definition decode_ascii :: "byte list \<Rightarrow> exn + string" where
  "decode_ascii bs =
     (if list_all (\<lambda>b. b < 0x80) bs then Inr (map (\<lambda>b. char_of (unat b)) bs)
      else Inl UnicodeDecodeError)"

definition decode_ascii_ignore :: "byte list \<Rightarrow> string" where
  "decode_ascii_ignore bs = map (\<lambda>b. char_of (unat b)) (filter (\<lambda>b. b < 0x80) bs)"

text \<open>
  \<^verbatim>\<open>b.strip(chars)\<close> removes, at both ends, the bytes that occur in \<^verbatim>\<open>chars\<close>.
\<close>

definition strip :: "byte list \<Rightarrow> byte list \<Rightarrow> byte list" where
  "strip chars bs =
     rev (dropWhile (\<lambda>b. b \<in> set chars) (rev (dropWhile (\<lambda>b. b \<in> set chars) bs)))"

subsection \<open>The stages of \<^verbatim>\<open>main\<close>\<close>

text \<open>
  The fatal exits of \<^verbatim>\<open>main\<close>, all with status 1:
  \<^item> \<open>ReadError\<close>: \<^verbatim>\<open>if not sector: sys.exit(1)\<close>, lines 72 and 91;
  \<^item> \<open>NotBootable\<close>: "This data image does not seem to be a bootable CD-image", line 84;
  \<^item> \<open>InvalidValidationEntry\<close>: "Invalid Validation Entry on image", line 103;
  \<^item> \<open>BootIndicatorNot88\<close>: "Boot indicator in Initial/Default-Entry is not 0x88. CD is
    not bootable.", line 128;
  \<^item> \<open>Unhandled e\<close>: "An error occurred: ...", line 187, for any exception raised inside
    the \<^verbatim>\<open>try\<close> block.
\<close>

datatype error =
    ReadError
  | NotBootable
  | InvalidValidationEntry
  | BootIndicatorNot88
  | Unhandled exn

text \<open>
  Lines 71 to 87: sector 17, its first 75 bytes unpacked, the identifier and the
  boot-system tag decoded and compared. The result is \<^verbatim>\<open>boot_p\<close>.
\<close>

definition validate_volume_descriptor :: "image_file \<Rightarrow> error + nat" where
  "validate_volume_descriptor file =
     (case truthy (get_sector file 17 1) of
        None \<Rightarrow> Inl ReadError
      | Some sector \<Rightarrow>
          (case unpack ''<B5sB32s32sI'' (take 75 sector) of
             Inl e \<Rightarrow> Inl (Unhandled e)
           | Inr [VInt boot, VBytes iso_ident, VInt version, VBytes torito_spec,
                  VBytes unused, VInt boot_p] \<Rightarrow>
               (case decode_ascii iso_ident of
                  Inl e \<Rightarrow> Inl (Unhandled e)
                | Inr iso_ident' \<Rightarrow>
                    (case decode_ascii (strip [0] torito_spec) of
                       Inl e \<Rightarrow> Inl (Unhandled e)
                     | Inr torito_spec' \<Rightarrow>
                         if iso_ident' \<noteq> ''CD001''
                            \<or> torito_spec' \<noteq> ''EL TORITO SPECIFICATION''
                         then Inl NotBootable
                         else Inr boot_p))
           | Inr _ \<Rightarrow> Inl (Unhandled ValueError)))"

text \<open>
  Lines 96 to 118: the Validation Entry, the first 32 bytes of the catalog sector. The
  manufacturer and the architecture are only printed; the value returned here is what is
  printed. In line 107 the argument of \<^verbatim>\<open>strip\<close> is the two bytes backslash and
  \<^verbatim>\<open>0\<close>.
\<close>

fun decimal :: "nat \<Rightarrow> string" where
  "decimal n =
     (if n < 10 then [char_of (48 + n)]
      else decimal (n div 10) @ [char_of (48 + n mod 10)])"

definition architecture :: "nat \<Rightarrow> string" where
  "architecture platform =
     (if platform = 0 then ''x86''
      else if platform = 1 then ''PowerPC''
      else if platform = 2 then ''Mac''
      else ''unknown ('' @ decimal platform @ '')'')"

definition validation_entry :: "byte list \<Rightarrow> error + string \<times> string" where
  "validation_entry sector =
     (case unpack ''<BBH24sHBB'' (take 32 sector) of
        Inl e \<Rightarrow> Inl (Unhandled e)
      | Inr [VInt header, VInt platform, VInt r1, VBytes manufact, VInt r2, VInt five,
             VInt aa] \<Rightarrow>
          if header \<noteq> 1 \<or> five \<noteq> 0x55 \<or> aa \<noteq> 0xAA then Inl InvalidValidationEntry
          else Inr (decode_ascii_ignore (strip [0x5C, 0x30] manufact), architecture platform)
      | Inr _ \<Rightarrow> Inl (Unhandled ValueError))"

text \<open>
  Lines 120 to 131: the Initial/Default Entry, bytes 32 to 63 of the catalog sector,
  unpacked with the format of line 123 into eight values. The result is
  \<^verbatim>\<open>(media, s_count, img_start)\<close>.
\<close>

definition initial_entry :: "byte list \<Rightarrow> error + nat \<times> nat \<times> nat" where
  "initial_entry sector =
     (case unpack ''<BBHBBH_I_B'' (drop 32 (take 64 sector)) of
        Inl e \<Rightarrow> Inl (Unhandled e)
      | Inr [VInt boot, VInt media, VInt load_segment, VInt system_type, VInt r1,
             VInt s_count, VInt img_start, VInt r2] \<Rightarrow>
          if boot \<noteq> 0x88 then Inl BootIndicatorNot88
          else Inr (media, s_count, img_start)
      | Inr _ \<Rightarrow> Inl (Unhandled ValueError))"

text \<open>Lines 89 to 131: the catalog sector is read and both entries are parsed.\<close>

definition parse_boot_catalog :: "image_file \<Rightarrow> nat \<Rightarrow> error + nat \<times> nat \<times> nat" where
  "parse_boot_catalog file boot_p =
     (case truthy (get_sector file boot_p 1) of
        None \<Rightarrow> Inl ReadError
      | Some sector \<Rightarrow>
          (case validation_entry sector of
             Inl e \<Rightarrow> Inl e
           | Inr info \<Rightarrow> initial_entry sector))"

text \<open>
  Lines 134 to 152: \<^verbatim>\<open>count\<close>, the sector count that the media type gives. It stays 0
  for no emulation, for an unknown media type and for a hard disk whose first sector
  cannot be read.
\<close>

definition media_count :: "image_file \<Rightarrow> nat \<Rightarrow> nat \<Rightarrow> exn + nat" where
  "media_count file media img_start =
     (if media = 0 then Inr 0
      else if media = 1 then Inr (1200 * 1024 div V_SEC_SIZE)
      else if media = 2 then Inr (1440 * 1024 div V_SEC_SIZE)
      else if media = 3 then Inr (2880 * 1024 div V_SEC_SIZE)
      else if media = 4 then
        (case truthy (get_sector file img_start 1) of
           None \<Rightarrow> Inr 0
         | Some mbr \<Rightarrow>
             (case unpack ''<8sII'' (drop 446 (take 462 mbr)) of
                Inl e \<Rightarrow> Inl e
              | Inr [VBytes skipped, VInt first_sector, VInt partition_size] \<Rightarrow>
                  Inr (first_sector + partition_size)
              | Inr _ \<Rightarrow> Inl ValueError))
      else Inr 0)"

text \<open>Line 154: \<^verbatim>\<open>cnt = s_count if count == 0 else count\<close>.\<close>

definition resolved_count :: "image_file \<Rightarrow> nat \<Rightarrow> nat \<Rightarrow> nat \<Rightarrow> exn + nat" where
  "resolved_count file media s_count img_start =
     (case media_count file media img_start of
        Inl e \<Rightarrow> Inl e
      | Inr count \<Rightarrow> Inr (if count = 0 then s_count else count))"

text \<open>
  Lines 133 to 181: the image is read at \<^verbatim>\<open>img_start\<close> with the resolved count and
  written when it is true. \<open>Inr (Some image)\<close> is the image written; \<open>Inr None\<close> is the
  normal end of the program with nothing written, which is what \<^verbatim>\<open>if image:\<close> without
  an \<^verbatim>\<open>else\<close> does on an empty or failed read.
\<close>

definition locate_and_read_image ::
    "image_file \<Rightarrow> nat \<Rightarrow> nat \<Rightarrow> nat \<Rightarrow> error + byte list option" where
  "locate_and_read_image file media s_count img_start =
     (case resolved_count file media s_count img_start of
        Inl e \<Rightarrow> Inl (Unhandled e)
      | Inr cnt \<Rightarrow> Inr (truthy (get_sector file img_start cnt)))"

text \<open>The body of \<^verbatim>\<open>main\<close> from line 69 on.\<close>

definition main :: "image_file \<Rightarrow> error + byte list option" where
  "main file =
     (case validate_volume_descriptor file of
        Inl e \<Rightarrow> Inl e
      | Inr boot_p \<Rightarrow>
          (case parse_boot_catalog file boot_p of
             Inl e \<Rightarrow> Inl e
           | Inr (media, s_count, img_start) \<Rightarrow>
               locate_and_read_image file media s_count img_start))"

subsection \<open>Notions of the specification and test images\<close>

text \<open>
  The 32-bit little-endian unsigned integer at byte offset \<open>off\<close> of \<open>bs\<close>, written out.
\<close>

definition u32_le_at :: "byte list \<Rightarrow> nat \<Rightarrow> nat" where
  "u32_le_at bs off =
     unat (bs ! off) + 256 * unat (bs ! (off + 1)) + 65536 * unat (bs ! (off + 2))
       + 16777216 * unat (bs ! (off + 3))"

text \<open>
  The specification's \<^verbatim>\<open>pad_nul\<close> and \<^verbatim>\<open>strip_nul\<close>: a tag is stored in a field of
  \<open>n\<close> bytes, filled up with NUL bytes at the end, and read back by removing the NUL
  bytes at the end. Neither is a function of the program; \<open>strip\<close> above is what the
  program calls.
\<close>

definition spec_pad_nul :: "nat \<Rightarrow> byte list \<Rightarrow> byte list" where
  "spec_pad_nul n s = s @ replicate (n - length s) 0"

definition spec_strip_nul :: "byte list \<Rightarrow> byte list" where
  "spec_strip_nul bs = rev (dropWhile (\<lambda>b. b = 0) (rev bs))"

text \<open>
  Test images. \<open>fixture_pvd ident tag p\<close> is a volume descriptor with the given
  identifier (5 bytes), the given tag field (32 bytes) and the catalog pointer \<open>p\<close>;
  \<open>fixture_catalog\<close> is a 64-byte catalog with the given header, signature bytes, boot
  indicator, media type, sector count and start sector; \<open>fixture_image\<close> puts the
  descriptor at sector 17, the catalog at sector \<open>p\<close> and the payload at sector
  \<open>start\<close>, with NUL bytes between them, on a source that never fails.
\<close>

definition never :: "nat \<Rightarrow> nat \<Rightarrow> bool" where
  "never off n = False"

definition ascii :: "string \<Rightarrow> byte list" where
  "ascii s = map of_char s"

definition fixture_pvd :: "byte list \<Rightarrow> byte list \<Rightarrow> byte \<Rightarrow> byte list" where
  "fixture_pvd ident tag p = [0] @ ident @ [1] @ tag @ replicate 32 0 @ [p, 0, 0, 0]"

definition fixture_catalog ::
    "byte \<Rightarrow> byte \<Rightarrow> byte \<Rightarrow> byte \<Rightarrow> byte \<Rightarrow> byte \<Rightarrow> byte \<Rightarrow> byte list" where
  "fixture_catalog header five aa boot media s_count start =
     [header, 0, 0, 0] @ replicate 24 0x41 @ [0, 0, five, aa]
       @ [boot, media, 0, 0, 0, 0, s_count, 0, start, 0, 0, 0] @ replicate 20 0"

definition fixture_image ::
    "byte list \<Rightarrow> nat \<Rightarrow> byte list \<Rightarrow> nat \<Rightarrow> byte list \<Rightarrow> image_file" where
  "fixture_image pvd p catalog start payload =
     \<lparr>content =
        replicate (17 * 2048) 0 @ pvd @ replicate (p * 2048 - 17 * 2048 - length pvd) 0
          @ catalog @ replicate (start * 2048 - p * 2048 - length catalog) 0 @ payload,
      io_error = never\<rparr>"

text \<open>
  A sector that starts with a master boot record: NUL bytes except for the two fields
  \<open>first_sector\<close> and \<open>partition_size\<close> (4 bytes each) at offsets 454 and 458.
  \<open>fixture_short\<close> is a source of three bytes.
\<close>

definition disk_sector :: "byte list \<Rightarrow> byte list \<Rightarrow> byte list" where
  "disk_sector first_sector partition_size =
     replicate 454 0 @ first_sector @ partition_size @ replicate 50 0"

definition fixture_short :: image_file where
  "fixture_short = \<lparr>content = [1, 2, 3], io_error = never\<rparr>"

text \<open>A source on which every read fails, and a source that is one catalog sector.\<close>

definition always :: "nat \<Rightarrow> nat \<Rightarrow> bool" where
  "always off n = True"

definition fixture_unreadable :: image_file where
  "fixture_unreadable = \<lparr>content = [], io_error = always\<rparr>"

definition fixture_catalog_only :: "byte list \<Rightarrow> image_file" where
  "fixture_catalog_only catalog = \<lparr>content = catalog, io_error = never\<rparr>"

section \<open>Lemmas\<close>

subsection \<open>The formats and the unpacked values\<close>

lemmas fmt_simps = struct_format_def is_digit_def is_space_def item_of_def digit_val_def

lemma format_pvd:
  "struct_format ''<B5sB32s32sI'' = Some [UInt 1 1, Str 5, UInt 1 1, Str 32, Str 32, UInt 1 4]"
  by (simp add: fmt_simps)

lemma format_validation:
  "struct_format ''<BBH24sHBB'' =
     Some [UInt 1 1, UInt 1 1, UInt 1 2, Str 24, UInt 1 2, UInt 1 1, UInt 1 1]"
  by (simp add: fmt_simps)

lemma format_initial: "struct_format ''<BBHBBH_I_B'' = None"
  by (simp add: fmt_simps)

lemma format_mbr: "struct_format ''<8sII'' = Some [Str 8, UInt 1 4, UInt 1 4]"
  by (simp add: fmt_simps)

lemma le_nat1: "n < length xs \<Longrightarrow> le_nat (take (Suc 0) (drop n xs)) = unat (xs ! n)"
  by (simp add: take_Suc_conv_app_nth Cons_nth_drop_Suc [symmetric])

lemma le_nat2:
  assumes "n + 1 < length xs"
  shows "le_nat (take 2 (drop n xs)) = unat (xs ! n) + 256 * unat (xs ! (n + 1))"
proof -
  have "drop n xs = xs ! n # xs ! (n + 1) # drop (n + 2) xs"
    using assms by (simp add: Cons_nth_drop_Suc)
  then show ?thesis by simp
qed

lemma drop4_nth:
  assumes "n + 3 < length xs"
  shows "drop n xs = xs ! n # xs ! (n + 1) # xs ! (n + 2) # xs ! (n + 3) # drop (n + 4) xs"
proof -
  have e: "n + 3 = Suc (Suc (Suc n))" "n + 4 = Suc (Suc (Suc (Suc n)))"
    by simp_all
  have "drop (Suc (Suc (Suc n))) xs
          = xs ! Suc (Suc (Suc n)) # drop (Suc (Suc (Suc (Suc n)))) xs"
    using assms by (simp add: Cons_nth_drop_Suc)
  then have "drop (Suc (Suc n)) xs
          = xs ! Suc (Suc n) # xs ! Suc (Suc (Suc n)) # drop (Suc (Suc (Suc (Suc n)))) xs"
    using assms Cons_nth_drop_Suc [of "Suc (Suc n)" xs] by simp
  then have "drop (Suc n) xs
          = xs ! Suc n # xs ! Suc (Suc n) # xs ! Suc (Suc (Suc n))
              # drop (Suc (Suc (Suc (Suc n)))) xs"
    using assms Cons_nth_drop_Suc [of "Suc n" xs] by simp
  then have "drop n xs
          = xs ! n # xs ! Suc n # xs ! Suc (Suc n) # xs ! Suc (Suc (Suc n))
              # drop (Suc (Suc (Suc (Suc n)))) xs"
    using assms Cons_nth_drop_Suc [of n xs] by simp
  then show ?thesis
    unfolding e by simp
qed

lemma le_nat4:
  assumes "n + 3 < length xs"
  shows "le_nat (take 4 (drop n xs)) = u32_le_at xs n"
  by (simp add: drop4_nth [OF assms] u32_le_at_def)

lemma unpack_pvd:
  "length buf = 75 \<Longrightarrow>
     unpack ''<B5sB32s32sI'' buf =
       Inr [VInt (unat (buf ! 0)), VBytes (take 5 (drop 1 buf)), VInt (unat (buf ! 6)),
            VBytes (take 32 (drop 7 buf)), VBytes (take 32 (drop 39 buf)),
            VInt (u32_le_at buf 71)]"
  using le_nat1 [of 0 buf] le_nat1 [of 6 buf] le_nat4 [of 71 buf]
  by (simp add: unpack_def format_pvd calcsize_def)

lemma unpack_pvd_short:
  "length buf \<noteq> 75 \<Longrightarrow> unpack ''<B5sB32s32sI'' buf = Inl StructError"
  by (simp add: unpack_def format_pvd calcsize_def)

lemma unpack_validation:
  "length buf = 32 \<Longrightarrow>
     unpack ''<BBH24sHBB'' buf =
       Inr [VInt (unat (buf ! 0)), VInt (unat (buf ! 1)),
            VInt (unat (buf ! 2) + 256 * unat (buf ! 3)), VBytes (take 24 (drop 4 buf)),
            VInt (unat (buf ! 28) + 256 * unat (buf ! 29)), VInt (unat (buf ! 30)),
            VInt (unat (buf ! 31))]"
  using le_nat1 [of 0 buf] le_nat1 [of 1 buf] le_nat2 [of 2 buf] le_nat2 [of 28 buf]
    le_nat1 [of 30 buf] le_nat1 [of 31 buf]
  by (simp add: unpack_def format_validation calcsize_def numeral_2_eq_2 [symmetric])

lemma unpack_validation_short:
  "length buf \<noteq> 32 \<Longrightarrow> unpack ''<BBH24sHBB'' buf = Inl StructError"
  by (simp add: unpack_def format_validation calcsize_def)

lemma unpack_initial: "unpack ''<BBHBBH_I_B'' buf = Inl StructError"
  by (simp add: unpack_def format_initial)

lemma unpack_mbr:
  "length buf = 16 \<Longrightarrow>
     unpack ''<8sII'' buf = Inr [VBytes (take 8 buf), VInt (u32_le_at buf 8), VInt (u32_le_at buf 12)]"
  using le_nat4 [of 8 buf] le_nat4 [of 12 buf]
  by (simp add: unpack_def format_mbr calcsize_def)

lemma unpack_mbr_short:
  "length buf \<noteq> 16 \<Longrightarrow> unpack ''<8sII'' buf = Inl StructError"
  by (simp add: unpack_def format_mbr calcsize_def)

lemma u32_le_at_take: "off + 3 < n \<Longrightarrow> u32_le_at (take n bs) off = u32_le_at bs off"
  by (simp add: u32_le_at_def)

lemma unat_of_char: "unat (of_char c :: byte) = of_char c"
proof -
  have "(of_char c :: byte) = of_nat (of_char c)"
    by (simp only: of_nat_of_char)
  then have "unat (of_char c :: byte) = (of_char c :: nat) mod 256"
    by (simp add: unat_of_nat)
  then show ?thesis
    by simp
qed

lemma char_of_unat_eq: "char_of (unat (b :: byte)) = c \<longleftrightarrow> b = of_char c"
proof
  assume "char_of (unat b) = c"
  then have "(of_char c :: nat) = unat b mod 256"
    by (simp add: of_char_of [symmetric])
  moreover have "unat b < 256"
    using unsigned_less [of b, where ?'a = nat] by simp
  ultimately have "(of_char c :: nat) = unat b"
    by simp
  then have "unat (of_char c :: byte) = unat b"
    by (simp add: unat_of_char)
  then show "b = of_char c"
    by (simp add: word_unat_eq_iff)
next
  assume "b = of_char c"
  then show "char_of (unat b) = c"
    by (simp add: unat_of_char)
qed

lemma decode_chars_eq:
  "map (\<lambda>b. char_of (unat (b :: byte))) bs = s \<longleftrightarrow> bs = ascii s"
proof (induction bs arbitrary: s)
  case Nil
  then show ?case by (auto simp add: ascii_def)
next
  case (Cons b bs)
  then show ?case
    by (cases s) (auto simp add: char_of_unat_eq ascii_def)
qed

lemma ascii_eq_iff: "ascii s = ascii t \<longleftrightarrow> s = t"
proof -
  have "inj (of_char :: char \<Rightarrow> byte)"
  proof (rule injI)
    fix c d :: char
    assume "(of_char c :: byte) = of_char d"
    then have "unat (of_char c :: byte) = unat (of_char d :: byte)"
      by simp
    then show "c = d"
      by (simp add: unat_of_char)
  qed
  then show ?thesis
    by (simp add: ascii_def inj_map_eq_map)
qed

lemma decode_ascii_Inr:
  "decode_ascii bs = Inr s \<longleftrightarrow> list_all (\<lambda>b. b < 0x80) bs \<and> bs = ascii s"
  by (auto simp add: decode_ascii_def decode_chars_eq)

lemma decode_ascii_Inl:
  "decode_ascii bs = Inl e \<longleftrightarrow> \<not> list_all (\<lambda>b. b < 0x80) bs \<and> e = UnicodeDecodeError"
  by (auto simp add: decode_ascii_def)

text \<open>
  The volume descriptor stage on a sector 17 of at least 75 bytes: the outcome as a
  function of the identifier, the tag and the pointer.
\<close>

lemma validate_sector:
  assumes "get_sector file 17 1 = Some sector" and "75 \<le> length sector"
  shows "validate_volume_descriptor file =
     (if \<not> list_all (\<lambda>b. b < 0x80) (take 5 (drop 1 sector)) then Inl (Unhandled UnicodeDecodeError)
      else if \<not> list_all (\<lambda>b. b < 0x80) (strip [0] (take 32 (drop 7 sector)))
        then Inl (Unhandled UnicodeDecodeError)
      else if take 5 (drop 1 sector) \<noteq> ascii ''CD001''
              \<or> strip [0] (take 32 (drop 7 sector)) \<noteq> ascii ''EL TORITO SPECIFICATION''
        then Inl NotBootable
      else Inr (u32_le_at sector 71))"
proof -
  have ne: "sector \<noteq> []"
    using assms(2) by auto
  have len: "length (take 75 sector) = 75"
    using assms(2) by simp
  have t: "truthy (get_sector file 17 1) = Some sector"
    using assms(1) ne by (simp add: truthy_def)
  have d1: "decode_ascii (take 5 (drop 1 sector)) = Inr s \<longleftrightarrow>
      list_all (\<lambda>b. b < 0x80) (take 5 (drop 1 sector)) \<and> take 5 (drop 1 sector) = ascii s" for s
    by (rule decode_ascii_Inr)
  show ?thesis
    unfolding validate_volume_descriptor_def t
    apply (simp add: unpack_pvd [OF len] u32_le_at_take drop_take min_def
        split: sum.splits)
    apply (auto simp add: decode_ascii_Inr decode_ascii_Inl ascii_eq_iff)
    done
qed

subsection \<open>The catalog and the media count\<close>

lemma unat_byte_eq: "n < 256 \<Longrightarrow> unat (b :: byte) = n \<longleftrightarrow> b = of_nat n"
  by (auto simp add: unat_of_nat)

lemma validation_entry_sector:
  assumes "32 \<le> length sector"
  shows "validation_entry sector =
     (if sector ! 0 \<noteq> 1 \<or> sector ! 30 \<noteq> 0x55 \<or> sector ! 31 \<noteq> 0xAA
      then Inl InvalidValidationEntry
      else Inr (decode_ascii_ignore (strip [0x5C, 0x30] (take 24 (drop 4 sector))),
                architecture (unat (sector ! 1))))"
proof -
  have len: "length (take 32 sector) = 32"
    using assms by simp
  have "unat (sector ! 0) = 1 \<longleftrightarrow> sector ! 0 = 1"
    using unat_byte_eq [of 1 "sector ! 0"] by simp
  moreover have "unat (sector ! 30) = 85 \<longleftrightarrow> sector ! 30 = 0x55"
    using unat_byte_eq [of 85 "sector ! 30"] by simp
  moreover have "unat (sector ! 31) = 170 \<longleftrightarrow> sector ! 31 = 0xAA"
    using unat_byte_eq [of 170 "sector ! 31"] by simp
  ultimately show ?thesis
    by (simp add: validation_entry_def unpack_validation [OF len] drop_take)
qed

lemma initial_entry_fails: "initial_entry sector = Inl (Unhandled StructError)"
  by (simp add: initial_entry_def unpack_initial)

lemma parse_boot_catalog_result:
  "parse_boot_catalog file boot_p =
     (case truthy (get_sector file boot_p 1) of
        None \<Rightarrow> Inl ReadError
      | Some sector \<Rightarrow>
          (case validation_entry sector of
             Inl e \<Rightarrow> Inl e
           | Inr info \<Rightarrow> Inl (Unhandled StructError)))"
  by (simp add: parse_boot_catalog_def initial_entry_fails split: option.splits sum.splits)

lemma parse_boot_catalog_Inl: "parse_boot_catalog file boot_p \<noteq> Inr entry"
  by (simp add: parse_boot_catalog_result split: option.splits sum.splits)

lemma main_Inl: "main file \<noteq> Inr out"
  by (simp add: main_def parse_boot_catalog_Inl split: sum.splits prod.splits)

lemma media_count_harddisk:
  assumes "get_sector file img_start 1 = Some mbr" and "462 \<le> length mbr"
  shows "media_count file 4 img_start = Inr (u32_le_at mbr 454 + u32_le_at mbr 458)"
proof -
  have ne: "mbr \<noteq> []"
    using assms(2) by auto
  have t: "truthy (get_sector file img_start 1) = Some mbr"
    using assms(1) ne by (simp add: truthy_def)
  have len: "length (drop 446 (take 462 mbr)) = 16"
    using assms(2) by simp
  have "u32_le_at (drop 446 (take 462 mbr)) 8 = u32_le_at mbr 454"
    using assms(2) by (simp add: u32_le_at_def)
  moreover have "u32_le_at (drop 446 (take 462 mbr)) 12 = u32_le_at mbr 458"
    using assms(2) by (simp add: u32_le_at_def)
  ultimately show ?thesis
    using t by (simp add: media_count_def unpack_mbr [OF len])
qed

lemma media_count_harddisk_short:
  assumes "get_sector file img_start 1 = Some mbr" and "mbr \<noteq> []" and "length mbr < 462"
  shows "media_count file 4 img_start = Inl StructError"
proof -
  have t: "truthy (get_sector file img_start 1) = Some mbr"
    using assms by (simp add: truthy_def)
  have len: "length (drop 446 (take 462 mbr)) \<noteq> 16"
    using assms(3) by simp
  show ?thesis
    using t by (simp add: media_count_def unpack_mbr_short [OF len])
qed

subsection \<open>Reads of the test images\<close>

lemma get_sector_at:
  assumes "length pre = n * 2048"
  shows "get_sector \<lparr>content = pre @ rest, io_error = never\<rparr> n c = Some (take (512 * c) rest)"
  using assms by (simp add: get_sector_def never_def SEC_SIZE_def V_SEC_SIZE_def)

lemma fixture_sector17:
  "get_sector (fixture_image pvd p catalog start payload) 17 1
     = Some (take 512 (pvd @ replicate (p * 2048 - 17 * 2048 - length pvd) 0
          @ catalog @ replicate (start * 2048 - p * 2048 - length catalog) 0 @ payload))"
proof -
  have "length (replicate (17 * 2048) (0::byte)) = 17 * 2048"
    by simp
  from get_sector_at [OF this, where c = 1]
  show ?thesis
    by (simp add: fixture_image_def)
qed

lemma fixture_catalog_sector:
  assumes "17 * 2048 + length pvd \<le> p * 2048"
  shows "get_sector (fixture_image pvd p catalog start payload) p 1
     = Some (take 512 (catalog @ replicate (start * 2048 - p * 2048 - length catalog) 0 @ payload))"
proof -
  have "length (replicate (17 * 2048) (0::byte) @ pvd @ replicate (p * 2048 - 17 * 2048 - length pvd) 0) = p * 2048"
    using assms by simp
  from get_sector_at [OF this, where c = 1]
  show ?thesis
    by (simp add: fixture_image_def)
qed

lemma fixture_payload_sector:
  assumes "17 * 2048 + length pvd \<le> p * 2048" and "p * 2048 + length catalog \<le> start * 2048"
  shows "get_sector (fixture_image pvd p catalog start payload) start c
     = Some (take (512 * c) payload)"
proof -
  have "length (replicate (17 * 2048) (0::byte) @ pvd @ replicate (p * 2048 - 17 * 2048 - length pvd) 0
     @ catalog @ replicate (start * 2048 - p * 2048 - length catalog) 0) = start * 2048"
    using assms by simp
  from get_sector_at [OF this, where c = c]
  show ?thesis
    by (simp add: fixture_image_def)
qed

lemma dropWhile_replicate_append:
  "P x \<Longrightarrow> dropWhile P (replicate n x @ ys) = dropWhile P ys"
  by (induction n) simp_all

lemma fixture_pvd_fields:
  assumes "length ident = 5" and "length tag = 32"
  shows "take 5 (drop 1 (fixture_pvd ident tag pb @ rest)) = ident"
    and "take 32 (drop 7 (fixture_pvd ident tag pb @ rest)) = tag"
    and "u32_le_at (fixture_pvd ident tag pb @ rest) 71 = unat pb"
    and "length (fixture_pvd ident tag pb) = 75"
  using assms by (simp_all add: fixture_pvd_def u32_le_at_def nth_append)

lemma fixture_sector17_pvd:
  assumes "length ident = 5" and "length tag = 32" and "18 \<le> p"
  shows "get_sector (fixture_image (fixture_pvd ident tag pb) p catalog start payload) 17 1
     = Some (fixture_pvd ident tag pb @ replicate 437 0)"
proof -
  have "take 512 (fixture_pvd ident tag pb @ replicate (p * 2048 - 17 * 2048 - 75) 0 @ r)
      = fixture_pvd ident tag pb @ replicate 437 0" for r
    using assms by (simp add: fixture_pvd_fields(4) min_def)
  then show ?thesis
    unfolding fixture_sector17 using assms by (simp add: fixture_pvd_fields(4))
qed

lemma fixture_validate:
  assumes "length ident = 5" and "length tag = 32" and "18 \<le> p"
  shows "validate_volume_descriptor
           (fixture_image (fixture_pvd ident tag pb) p catalog start payload) =
     (if \<not> list_all (\<lambda>b. b < 0x80) ident then Inl (Unhandled UnicodeDecodeError)
      else if \<not> list_all (\<lambda>b. b < 0x80) (strip [0] tag)
        then Inl (Unhandled UnicodeDecodeError)
      else if ident \<noteq> ascii ''CD001'' \<or> strip [0] tag \<noteq> ascii ''EL TORITO SPECIFICATION''
        then Inl NotBootable
      else Inr (unat pb))"
proof -
  have "75 \<le> length (fixture_pvd ident tag pb @ replicate 437 0)"
    using assms by (simp add: fixture_pvd_fields(4))
  from validate_sector [OF fixture_sector17_pvd [OF assms] this]
  show ?thesis
    using assms by (simp only: fixture_pvd_fields)
qed

lemma strip_nul_padded:
  assumes "list_all (\<lambda>b. b \<noteq> 0) s"
  shows "strip [0] (spec_pad_nul n s) = s"
proof -
  have front: "dropWhile (\<lambda>b. b \<in> set [0]) (s @ replicate k 0) = s @ replicate k 0"
    if "s \<noteq> []" for k
    using assms that by (cases s) simp_all
  have rear: "dropWhile (\<lambda>b. b \<in> set [0]) (rev s) = rev s"
    using assms by (cases s rule: rev_cases) simp_all
  have rear2: "dropWhile (\<lambda>b. b \<in> set [0]) (rev (s @ replicate k 0)) = rev s" for k
    using rear by (simp add: dropWhile_replicate_append)
  show ?thesis
  proof (cases "s = []")
    case True
    then show ?thesis
      using dropWhile_replicate_append [of "\<lambda>b. b \<in> set [0]" "0 :: byte" n "[]"]
      by (simp add: strip_def spec_pad_nul_def)
  next
    case False
    then show ?thesis
      by (simp only: strip_def spec_pad_nul_def front [OF False] rear2 rev_rev_ident)
  qed
qed

lemma tag_padded:
  "spec_pad_nul 32 (ascii ''EL TORITO SPECIFICATION'') = ascii ''EL TORITO SPECIFICATION'' @ replicate 9 0"
  "length (spec_pad_nul 32 (ascii ''EL TORITO SPECIFICATION'')) = 32"
  "length (ascii ''CD001'') = 5"
  "list_all (\<lambda>b. b < 0x80) (ascii ''CD001'')"
  "list_all (\<lambda>b. b < 0x80) (ascii ''EL TORITO SPECIFICATION'')"
  "list_all (\<lambda>b. b \<noteq> 0) (ascii ''EL TORITO SPECIFICATION'')"
  by (simp_all add: spec_pad_nul_def ascii_def)

lemma fixture_validate_ok:
  assumes "18 \<le> p"
  shows "validate_volume_descriptor
           (fixture_image (fixture_pvd (ascii ''CD001'')
              (spec_pad_nul 32 (ascii ''EL TORITO SPECIFICATION'')) pb) p catalog start payload)
         = Inr (unat pb)"
  by (simp add: fixture_validate [OF tag_padded(3) tag_padded(2) assms]
      strip_nul_padded [OF tag_padded(6)] tag_padded(4,5))

lemma fixture_catalog_fields:
  shows "length (fixture_catalog header five aa boot media s_count start) = 64"
    and "(fixture_catalog header five aa boot media s_count start @ rest) ! 0 = header"
    and "(fixture_catalog header five aa boot media s_count start @ rest) ! 30 = five"
    and "(fixture_catalog header five aa boot media s_count start @ rest) ! 31 = aa"
  by (simp_all add: fixture_catalog_def nth_append)

lemma fixture_catalog_read:
  assumes "length pvd = 75" and "18 \<le> p" and "p < start"
  shows "get_sector
           (fixture_image pvd p (fixture_catalog header five aa boot media s_count st)
              start payload) p 1
         = Some (fixture_catalog header five aa boot media s_count st @ replicate 448 0)"
proof -
  have "take 512 (fixture_catalog header five aa boot media s_count st
          @ replicate (start * 2048 - p * 2048 - 64) 0 @ r)
      = fixture_catalog header five aa boot media s_count st @ replicate 448 0" for r
    using assms by (simp add: fixture_catalog_fields(1) min_def)
  moreover have "17 * 2048 + length pvd \<le> p * 2048"
    using assms by simp
  ultimately show ?thesis
    unfolding fixture_catalog_sector [OF \<open>17 * 2048 + length pvd \<le> p * 2048\<close>]
    by (simp add: fixture_catalog_fields(1))
qed

lemma fixture_validation_entry:
  "validation_entry (fixture_catalog header five aa boot media s_count st @ replicate 448 0) =
     (if header \<noteq> 1 \<or> five \<noteq> 0x55 \<or> aa \<noteq> 0xAA then Inl InvalidValidationEntry
      else Inr (decode_ascii_ignore (replicate 24 0x41), ''x86''))"
proof -
  have "32 \<le> length (fixture_catalog header five aa boot media s_count st @ replicate 448 0)"
    by (simp add: fixture_catalog_fields(1))
  from validation_entry_sector [OF this]
  show ?thesis
    by (simp add: fixture_catalog_fields(2,3,4))
      (simp add: fixture_catalog_def strip_def architecture_def)
qed

lemma fixture_main:
  assumes "18 \<le> unat pb" and "unat pb < start"
  shows "main (fixture_image
            (fixture_pvd (ascii ''CD001'')
               (spec_pad_nul 32 (ascii ''EL TORITO SPECIFICATION'')) pb)
            (unat pb) (fixture_catalog header five aa boot media s_count st) start payload)
         = (if header \<noteq> 1 \<or> five \<noteq> 0x55 \<or> aa \<noteq> 0xAA then Inl InvalidValidationEntry
            else Inl (Unhandled StructError))"
proof -
  have len: "length (fixture_pvd (ascii ''CD001'')
               (spec_pad_nul 32 (ascii ''EL TORITO SPECIFICATION'')) pb) = 75"
    by (rule fixture_pvd_fields(4) [OF tag_padded(3) tag_padded(2)])
  have ne: "fixture_catalog header five aa boot media s_count st @ replicate 448 0 \<noteq> []"
    by (simp add: fixture_catalog_def)
  have t: "truthy (get_sector (fixture_image
            (fixture_pvd (ascii ''CD001'')
               (spec_pad_nul 32 (ascii ''EL TORITO SPECIFICATION'')) pb)
            (unat pb) (fixture_catalog header five aa boot media s_count st) start payload)
            (unat pb) 1)
      = Some (fixture_catalog header five aa boot media s_count st @ replicate 448 0)"
    unfolding fixture_catalog_read [OF len assms] using ne by (simp add: truthy_def)
  have "parse_boot_catalog (fixture_image
            (fixture_pvd (ascii ''CD001'')
               (spec_pad_nul 32 (ascii ''EL TORITO SPECIFICATION'')) pb)
            (unat pb) (fixture_catalog header five aa boot media s_count st) start payload)
            (unat pb)
      = (if header \<noteq> 1 \<or> five \<noteq> 0x55 \<or> aa \<noteq> 0xAA then Inl InvalidValidationEntry
            else Inl (Unhandled StructError))"
    unfolding parse_boot_catalog_result t by (simp add: fixture_validation_entry)
  then show ?thesis
    unfolding main_def fixture_validate_ok [OF assms(1)] by simp
qed

subsection \<open>Sectors that are too short\<close>

text \<open>
  A sector that is not empty but shorter than the format makes \<^verbatim>\<open>struct.unpack\<close>
  raise, since a slice of a short sector is short too. This is why the statements below
  ask for 75, 32 and 462 bytes.
\<close>

lemma validate_short_sector:
  assumes "get_sector file 17 1 = Some sector" and "sector \<noteq> []" and "length sector < 75"
  shows "validate_volume_descriptor file = Inl (Unhandled StructError)"
proof -
  have t: "truthy (get_sector file 17 1) = Some sector"
    using assms(1,2) by (simp add: truthy_def)
  have "length (take 75 sector) \<noteq> 75"
    using assms(3) by simp
  then show ?thesis
    unfolding validate_volume_descriptor_def t by (simp add: unpack_pvd_short)
qed

lemma validation_entry_short:
  assumes "length sector < 32"
  shows "validation_entry sector = Inl (Unhandled StructError)"
proof -
  have "length (take 32 sector) \<noteq> 32"
    using assms by simp
  then show ?thesis
    unfolding validation_entry_def by (simp add: unpack_validation_short)
qed

subsection \<open>The lines after the unpacking, given the values of an entry\<close>

text \<open>
  Lines 133 to 181 are written for an entry that has been unpacked. With the values
  \<^verbatim>\<open>media\<close>, \<^verbatim>\<open>s_count\<close> and \<^verbatim>\<open>img_start\<close> given, media type 1, 2 or 3
  resolves to 2400, 2880 or 5760 sectors of 512 bytes whatever the declared count is, and
  media type 0 resolves to the declared count.
\<close>

lemma sizing_floppy_and_no_emulation:
  "resolved_count file 1 s_count img_start = Inr 2400
   \<and> resolved_count file 2 s_count img_start = Inr 2880
   \<and> resolved_count file 3 s_count img_start = Inr 5760
   \<and> resolved_count file 0 s_count img_start = Inr s_count
   \<and> locate_and_read_image file 1 s_count img_start
       = Inr (truthy (get_sector file img_start 2400))
   \<and> locate_and_read_image file 2 s_count img_start
       = Inr (truthy (get_sector file img_start 2880))
   \<and> locate_and_read_image file 3 s_count img_start
       = Inr (truthy (get_sector file img_start 5760))
   \<and> locate_and_read_image file 0 s_count img_start
       = Inr (truthy (get_sector file img_start s_count))"
  by (simp add: locate_and_read_image_def resolved_count_def media_count_def V_SEC_SIZE_def)

lemma disk_sector_fields:
  "u32_le_at (disk_sector [a, b, c, d] [e, f, g, h]) 454
     = unat a + 256 * unat b + 65536 * unat c + 16777216 * unat d"
  "u32_le_at (disk_sector [a, b, c, d] [e, f, g, h]) 458
     = unat e + 256 * unat f + 65536 * unat g + 16777216 * unat h"
  "length (disk_sector [a, b, c, d] [e, f, g, h]) = 512"
  by (simp_all add: u32_le_at_def disk_sector_def nth_append)

text \<open>
  For media type 4 the first sector of the image is read; when it holds at least 462
  bytes, \<^verbatim>\<open>count\<close> is the sum of the two 32-bit little-endian integers at offsets 454
  and 458, as a natural number without wrap-around, and line 154 replaces a sum of 0 by
  the declared count.
\<close>

lemma sizing_harddisk:
  assumes "get_sector file img_start 1 = Some mbr" and "462 \<le> length mbr"
  shows "media_count file 4 img_start = Inr (u32_le_at mbr 454 + u32_le_at mbr 458)
    \<and> resolved_count file 4 s_count img_start
        = Inr (if u32_le_at mbr 454 + u32_le_at mbr 458 = 0 then s_count
               else u32_le_at mbr 454 + u32_le_at mbr 458)
    \<and> locate_and_read_image file 4 s_count img_start
        = Inr (truthy (get_sector file img_start
                 (if u32_le_at mbr 454 + u32_le_at mbr 458 = 0 then s_count
                  else u32_le_at mbr 454 + u32_le_at mbr 458)))"
  by (simp add: locate_and_read_image_def resolved_count_def media_count_harddisk [OF assms])

text \<open>
  Line 154: a count of 0 is replaced by the declared count. The count of the media type is
  0 for no emulation, for a hard disk whose first sector cannot be read or is empty, for a
  hard disk whose two partition fields add up to 0, and for an unknown media type.
\<close>

lemma sizing_fallback:
  "(media_count file media img_start = Inr count \<longrightarrow>
      resolved_count file media s_count img_start
        = Inr (if count = 0 then s_count else count)
      \<and> locate_and_read_image file media s_count img_start
        = Inr (truthy (get_sector file img_start (if count = 0 then s_count else count))))
   \<and> media_count file 0 img_start = Inr 0
   \<and> (truthy (get_sector file img_start 1) = None \<longrightarrow> media_count file 4 img_start = Inr 0)
   \<and> (get_sector file img_start 1 = Some mbr \<and> 462 \<le> length mbr
        \<and> u32_le_at mbr 454 + u32_le_at mbr 458 = 0
      \<longrightarrow> media_count file 4 img_start = Inr 0)
   \<and> (4 < media \<longrightarrow> media_count file media img_start = Inr 0)"
proof -
  have "media_count file 4 img_start = Inr 0"
    if "get_sector file img_start 1 = Some mbr" and "462 \<le> length mbr"
      and "u32_le_at mbr 454 + u32_le_at mbr 458 = 0"
    using media_count_harddisk [OF that(1,2)] that(3) by simp
  moreover have "media_count file 4 img_start = Inr 0"
    if "truthy (get_sector file img_start 1) = None"
    using that by (simp add: media_count_def)
  moreover have "media_count file media img_start = Inr 0" if "4 < media"
    using that by (simp add: media_count_def)
  moreover have "media_count file 0 img_start = Inr 0"
    by (simp add: media_count_def)
  moreover have "resolved_count file media s_count img_start
        = Inr (if count = 0 then s_count else count)
      \<and> locate_and_read_image file media s_count img_start
        = Inr (truthy (get_sector file img_start (if count = 0 then s_count else count)))"
    if "media_count file media img_start = Inr count"
    using that by (simp add: locate_and_read_image_def resolved_count_def)
  ultimately show ?thesis
    by (intro conjI impI) (elim conjE | assumption | simp only:)+
qed

section \<open>The claims\<close>

text \<open>
  C2. The format of line 123 is not a format of \<^verbatim>\<open>struct\<close>, so unpacking the
  Initial/Default Entry raises whatever the sector holds, before the boot indicator is
  looked at. Every image that passes the volume descriptor check and the Validation Entry
  check ends in the generic handler, and no image at all makes the program write a boot
  image or end normally.
\<close>

theorem initial_entry_unpack_always_fails:
  "struct_format ''<BBHBBH_I_B'' = None
   \<and> initial_entry sector = Inl (Unhandled StructError)
   \<and> (validate_volume_descriptor file = Inr boot_p
        \<and> truthy (get_sector file boot_p 1) = Some catalog
        \<and> validation_entry catalog = Inr info
      \<longrightarrow> main file = Inl (Unhandled StructError))
   \<and> main file \<noteq> Inr out"
proof -
  have "main file = Inl (Unhandled StructError)"
    if "validate_volume_descriptor file = Inr boot_p"
      and "truthy (get_sector file boot_p 1) = Some catalog"
      and "validation_entry catalog = Inr info"
    using that by (simp add: main_def parse_boot_catalog_result)
  then show ?thesis
    using format_initial initial_entry_fails main_Inl by blast
qed

theorem initial_entry_unpack_always_fails_witness:
  "validate_volume_descriptor
     (fixture_image
        (fixture_pvd (ascii ''CD001'') (spec_pad_nul 32 (ascii ''EL TORITO SPECIFICATION'')) 18)
        18 (fixture_catalog 1 0x55 0xAA 0x88 2 0 19) 19 []) = Inr 18
   \<and> truthy (get_sector
     (fixture_image
        (fixture_pvd (ascii ''CD001'') (spec_pad_nul 32 (ascii ''EL TORITO SPECIFICATION'')) 18)
        18 (fixture_catalog 1 0x55 0xAA 0x88 2 0 19) 19 []) 18 1)
       = Some (fixture_catalog 1 0x55 0xAA 0x88 2 0 19 @ replicate 448 0)
   \<and> validation_entry (fixture_catalog 1 0x55 0xAA 0x88 2 0 19 @ replicate 448 0)
       = Inr (decode_ascii_ignore (replicate 24 0x41), ''x86'')
   \<and> main
     (fixture_image
        (fixture_pvd (ascii ''CD001'') (spec_pad_nul 32 (ascii ''EL TORITO SPECIFICATION'')) 18)
        18 (fixture_catalog 1 0x55 0xAA 0x88 2 0 19) 19 []) = Inl (Unhandled StructError)"
proof -
  let ?pvd = "fixture_pvd (ascii ''CD001'') (spec_pad_nul 32 (ascii ''EL TORITO SPECIFICATION'')) 18"
  let ?cat = "fixture_catalog 1 0x55 0xAA 0x88 2 0 19"
  let ?f = "fixture_image ?pvd 18 ?cat 19 []"
  have a: "validate_volume_descriptor ?f = Inr 18"
    using fixture_validate_ok [of 18 18 ?cat 19 "[]"] by simp
  have len: "length ?pvd = 75"
    by (rule fixture_pvd_fields(4) [OF tag_padded(3) tag_padded(2)])
  have "get_sector ?f 18 1 = Some (?cat @ replicate 448 0)"
    by (rule fixture_catalog_read [OF len]) simp_all
  then have b: "truthy (get_sector ?f 18 1) = Some (?cat @ replicate 448 0)"
    by (simp add: truthy_def fixture_catalog_def)
  have c: "validation_entry (?cat @ replicate 448 0)
      = Inr (decode_ascii_ignore (replicate 24 0x41), ''x86'')"
    by (simp add: fixture_validation_entry)
  from initial_entry_unpack_always_fails [of "[]" ?f 18 "?cat @ replicate 448 0"
      "(decode_ascii_ignore (replicate 24 0x41), ''x86'')" None] a b c
  show ?thesis
    by blast
qed

lemma main_read_error_17:
  "truthy (get_sector file 17 1) = None \<Longrightarrow> main file = Inl ReadError"
  by (simp add: main_def validate_volume_descriptor_def)

lemma main_read_error_catalog:
  "validate_volume_descriptor file = Inr boot_p \<Longrightarrow>
   truthy (get_sector file boot_p 1) = None \<Longrightarrow> main file = Inl ReadError"
  by (simp add: main_def parse_boot_catalog_def)

lemma fixture_short_read: "get_sector fixture_short 0 1 = Some [1, 2, 3]"
  by (simp add: get_sector_def fixture_short_def never_def V_SEC_SIZE_def)

text \<open>
  C3, as the program has it. The sector reader gives \<^verbatim>\<open>None\<close> exactly when the read
  raises an I/O error. Otherwise it gives the bytes that the source holds from the offset
  on, at most \<^verbatim>\<open>512 * sec_count\<close> of them: on a truncated source or past its end the
  buffer is shorter than requested or empty, and it is returned as it is. A failed or
  empty read of sector 17 or of the catalog sector ends the program with the read error.
\<close>

theorem get_sector_short_read:
  "(get_sector file n c = None \<longleftrightarrow> io_error file (n * 2048) (512 * c))
   \<and> (get_sector file n c = Some buf \<longrightarrow>
        buf = take (512 * c) (drop (n * 2048) (content file))
        \<and> length buf = min (512 * c) (length (content file) - n * 2048)
        \<and> (length buf < 512 * c \<longleftrightarrow> 0 < c \<and> length (content file) < n * 2048 + 512 * c))
   \<and> (truthy (get_sector file 17 1) = None \<longrightarrow> main file = Inl ReadError)
   \<and> (validate_volume_descriptor file = Inr boot_p
        \<and> truthy (get_sector file boot_p 1) = None
      \<longrightarrow> main file = Inl ReadError)"
proof -
  have "get_sector file n c = None \<longleftrightarrow> io_error file (n * 2048) (512 * c)"
    by (simp add: get_sector_def SEC_SIZE_def V_SEC_SIZE_def)
  moreover have "buf = take (512 * c) (drop (n * 2048) (content file))
        \<and> length buf = min (512 * c) (length (content file) - n * 2048)
        \<and> (length buf < 512 * c \<longleftrightarrow> 0 < c \<and> length (content file) < n * 2048 + 512 * c)"
    if "get_sector file n c = Some buf"
    using that by (auto simp add: get_sector_def SEC_SIZE_def V_SEC_SIZE_def split: if_splits)
  ultimately show ?thesis
    using main_read_error_17 main_read_error_catalog by blast
qed

theorem get_sector_short_read_witness:
  "get_sector fixture_unreadable 17 1 = None
   \<and> get_sector fixture_short 0 1 = Some [1, 2, 3]
   \<and> length [1, 2, 3 :: byte] = min (512 * 1) (length (content fixture_short) - 0 * 2048)
   \<and> truthy (get_sector fixture_short 17 1) = None
   \<and> main fixture_short = Inl ReadError
   \<and> validate_volume_descriptor
        (fixture_image
           (fixture_pvd (ascii ''CD001'') (spec_pad_nul 32 (ascii ''EL TORITO SPECIFICATION'')) 18)
           18 [] 18 []) = Inr 18
   \<and> truthy (get_sector
        (fixture_image
           (fixture_pvd (ascii ''CD001'') (spec_pad_nul 32 (ascii ''EL TORITO SPECIFICATION'')) 18)
           18 [] 18 []) 18 1) = None
   \<and> main
        (fixture_image
           (fixture_pvd (ascii ''CD001'') (spec_pad_nul 32 (ascii ''EL TORITO SPECIFICATION'')) 18)
           18 [] 18 []) = Inl ReadError"
proof -
  let ?pvd = "fixture_pvd (ascii ''CD001'') (spec_pad_nul 32 (ascii ''EL TORITO SPECIFICATION'')) 18"
  let ?f = "fixture_image ?pvd 18 [] 18 []"
  have u: "io_error fixture_unreadable (17 * 2048) (512 * 1)"
    by (simp add: fixture_unreadable_def always_def)
  have a: "get_sector fixture_unreadable 17 1 = None"
    using get_sector_short_read [of fixture_unreadable 17 1] u by blast
  have b: "get_sector fixture_short 0 1 = Some [1, 2, 3]"
    by (rule fixture_short_read)
  have c: "length [1, 2, 3 :: byte] = min (512 * 1) (length (content fixture_short) - 0 * 2048)"
    using get_sector_short_read [of fixture_short 0 1 "[1, 2, 3]"] b by blast
  have d: "truthy (get_sector fixture_short 17 1) = None"
    by (simp add: truthy_def get_sector_def fixture_short_def never_def SEC_SIZE_def)
  have e: "main fixture_short = Inl ReadError"
    using get_sector_short_read [of fixture_short] d by blast
  have v: "validate_volume_descriptor ?f = Inr 18"
    using fixture_validate_ok [of 18 18 "[]" 18 "[]"] by simp
  have len: "length ?pvd = 75"
    by (rule fixture_pvd_fields(4) [OF tag_padded(3) tag_padded(2)])
  have "get_sector ?f 18 1 = Some (take 512 ([] @ replicate (18 * 2048 - 18 * 2048 - length ([] :: byte list)) 0 @ []))"
    by (rule fixture_catalog_sector) (simp add: len)
  then have t: "truthy (get_sector ?f 18 1) = None"
    by (simp add: truthy_def)
  have m: "main ?f = Inl ReadError"
    using get_sector_short_read [of ?f _ _ _ 18] v t by blast
  show ?thesis
    using a b c d e v t m by blast
qed

theorem get_sector_short_read_counterexample:
  "get_sector fixture_short 0 1 = Some [1, 2, 3]
   \<and> length [1, 2, 3 :: byte] < V_SEC_SIZE * 1
   \<and> locate_and_read_image fixture_short 0 1 0 = Inr (Some [1, 2, 3])"
proof -
  have "locate_and_read_image fixture_short 0 1 0 = Inr (Some [1, 2, 3])"
    unfolding locate_and_read_image_def resolved_count_def media_count_def
    by (simp add: fixture_short_read [simplified] truthy_def)
  then show ?thesis
    using fixture_short_read by (simp add: V_SEC_SIZE_def)
qed

text \<open>
  C6. On a catalog sector of at least 32 bytes, a header byte other than 1, or a byte 30
  other than 0x55, or a byte 31 other than 0xAA, ends the parse with the invalid validation
  entry error, whatever the other bytes are. With the three bytes right, the Validation
  Entry is accepted for every platform byte and every manufacturer field.
\<close>

theorem validation_entry_markers:
  assumes "32 \<le> length sector"
  shows "(sector ! 0 \<noteq> 1 \<or> sector ! 30 \<noteq> 0x55 \<or> sector ! 31 \<noteq> 0xAA \<longrightarrow>
            validation_entry sector = Inl InvalidValidationEntry
            \<and> (get_sector file boot_p 1 = Some sector \<longrightarrow>
                 parse_boot_catalog file boot_p = Inl InvalidValidationEntry))
    \<and> (sector ! 0 = 1 \<and> sector ! 30 = 0x55 \<and> sector ! 31 = 0xAA \<longrightarrow>
            validation_entry sector
              = Inr (decode_ascii_ignore (strip [0x5C, 0x30] (take 24 (drop 4 sector))),
                     architecture (unat (sector ! 1))))"
proof -
  have ne: "sector \<noteq> []"
    using assms by auto
  have "parse_boot_catalog file boot_p = Inl InvalidValidationEntry"
    if "validation_entry sector = Inl InvalidValidationEntry"
      and "get_sector file boot_p 1 = Some sector"
    using that ne by (simp add: parse_boot_catalog_def truthy_def)
  then show ?thesis
    using validation_entry_sector [OF assms] by auto
qed

theorem validation_entry_markers_witness:
  "32 \<le> length (fixture_catalog 0 0x55 0xAA 0x88 0 10 25)
   \<and> fixture_catalog 0 0x55 0xAA 0x88 0 10 25 ! 0 \<noteq> 1
   \<and> get_sector (fixture_catalog_only (fixture_catalog 0 0x55 0xAA 0x88 0 10 25)) 0 1
       = Some (fixture_catalog 0 0x55 0xAA 0x88 0 10 25)
   \<and> parse_boot_catalog (fixture_catalog_only (fixture_catalog 0 0x55 0xAA 0x88 0 10 25)) 0
       = Inl InvalidValidationEntry
   \<and> validation_entry (fixture_catalog 1 0x55 0xAB 0x88 0 10 25) = Inl InvalidValidationEntry
   \<and> validation_entry (fixture_catalog 1 0x55 0xAA 0x88 0 10 25)
       = Inr (decode_ascii_ignore (strip [0x5C, 0x30]
                (take 24 (drop 4 (fixture_catalog 1 0x55 0xAA 0x88 0 10 25)))),
              architecture (unat (fixture_catalog 1 0x55 0xAA 0x88 0 10 25 ! 1)))"
proof -
  have l: "32 \<le> length (fixture_catalog h f a 0x88 0 10 25)" for h f a
    by (simp add: fixture_catalog_fields(1))
  have n: "fixture_catalog h f a 0x88 0 10 25 ! 0 = h"
    "fixture_catalog h f a 0x88 0 10 25 ! 30 = f"
    "fixture_catalog h f a 0x88 0 10 25 ! 31 = a" for h f a
    using fixture_catalog_fields(2,3,4) [of h f a "0x88" 0 10 25 "[]"] by simp_all
  have g: "get_sector (fixture_catalog_only (fixture_catalog 0 0x55 0xAA 0x88 0 10 25)) 0 1
       = Some (fixture_catalog 0 0x55 0xAA 0x88 0 10 25)"
    by (simp add: get_sector_def fixture_catalog_only_def never_def V_SEC_SIZE_def
        fixture_catalog_fields(1))
  have "fixture_catalog 0 0x55 0xAA 0x88 0 10 25 ! 0 \<noteq> 1"
    by (simp add: n)
  moreover have "fixture_catalog 1 0x55 0xAB 0x88 0 10 25 ! 31 \<noteq> 0xAA"
    by (simp add: n)
  moreover have "fixture_catalog 1 0x55 0xAA 0x88 0 10 25 ! 0 = 1
      \<and> fixture_catalog 1 0x55 0xAA 0x88 0 10 25 ! 30 = 0x55
      \<and> fixture_catalog 1 0x55 0xAA 0x88 0 10 25 ! 31 = 0xAA"
    by (simp add: n)
  ultimately show ?thesis
    using validation_entry_markers [OF l, of 0 "0x55" "0xAA"
        "fixture_catalog_only (fixture_catalog 0 0x55 0xAA 0x88 0 10 25)" 0]
      validation_entry_markers [OF l, of 1 "0x55" "0xAB"]
      validation_entry_markers [OF l, of 1 "0x55" "0xAA"] g l
    by blast
qed

lemma fixture_sector_fields:
  assumes "length ident = 5" and "length tag = 32"
  shows "75 \<le> length (fixture_pvd ident tag pb @ replicate 437 0)"
  using assms by (simp add: fixture_pvd_fields(4))

text \<open>
  The volume descriptor stage on a sector 17 of at least 75 bytes. With the identifier
  \<^verbatim>\<open>CD001\<close> and the tag \<^verbatim>\<open>EL TORITO SPECIFICATION\<close> the result is the 32-bit
  little-endian integer at byte offset 71; an ASCII identifier other than \<^verbatim>\<open>CD001\<close>
  gives the not-bootable error when the stripped tag is ASCII too. An identifier with a
  byte of 128 or more does not get to the comparison of line 82.
\<close>

lemma volume_descriptor_result:
  assumes "get_sector file 17 1 = Some sector" and "75 \<le> length sector"
  shows "(take 5 (drop 1 sector) = ascii ''CD001''
          \<and> strip [0] (take 32 (drop 7 sector)) = ascii ''EL TORITO SPECIFICATION''
        \<longrightarrow> validate_volume_descriptor file = Inr (u32_le_at sector 71))
    \<and> (take 5 (drop 1 sector) \<noteq> ascii ''CD001''
          \<and> list_all (\<lambda>b. b < 0x80) (take 5 (drop 1 sector))
          \<and> list_all (\<lambda>b. b < 0x80) (strip [0] (take 32 (drop 7 sector)))
        \<longrightarrow> validate_volume_descriptor file = Inl NotBootable)
    \<and> (\<not> list_all (\<lambda>b. b < 0x80) (take 5 (drop 1 sector))
        \<longrightarrow> validate_volume_descriptor file = Inl (Unhandled UnicodeDecodeError))"
  using tag_padded(4,5) by (simp add: validate_sector [OF assms])

text \<open>
  C4 fails on the program. For a well-formed image the result is the pointer at byte
  offset 71, as the claim says. But an identifier other than \<^verbatim>\<open>CD001\<close> is not always
  reported as not bootable: with the identifier bytes C3 44 30 30 31 the strict
  \<^verbatim>\<open>decode\<close> of line 79 raises before the comparison of line 82 that would report
  it, and the program ends in the generic handler.
\<close>

theorem non_ascii_identifier_not_reported:
  "[0xC3, 0x44, 0x30, 0x30, 0x31] \<noteq> ascii ''CD001''
   \<and> get_sector
     (fixture_image
        (fixture_pvd [0xC3, 0x44, 0x30, 0x30, 0x31]
           (spec_pad_nul 32 (ascii ''EL TORITO SPECIFICATION'')) 20)
        20 [] 20 []) 17 1
      = Some (fixture_pvd [0xC3, 0x44, 0x30, 0x30, 0x31]
           (spec_pad_nul 32 (ascii ''EL TORITO SPECIFICATION'')) 20 @ replicate 437 0)
   \<and> take 5 (drop 1 (fixture_pvd [0xC3, 0x44, 0x30, 0x30, 0x31]
           (spec_pad_nul 32 (ascii ''EL TORITO SPECIFICATION'')) 20 @ replicate 437 0))
      = [0xC3, 0x44, 0x30, 0x30, 0x31]
   \<and> main
     (fixture_image
        (fixture_pvd [0xC3, 0x44, 0x30, 0x30, 0x31]
           (spec_pad_nul 32 (ascii ''EL TORITO SPECIFICATION'')) 20)
        20 [] 20 []) = Inl (Unhandled UnicodeDecodeError)
   \<and> main
     (fixture_image
        (fixture_pvd [0xC3, 0x44, 0x30, 0x30, 0x31]
           (spec_pad_nul 32 (ascii ''EL TORITO SPECIFICATION'')) 20)
        20 [] 20 []) \<noteq> Inl NotBootable"
proof -
  have l3: "length [0xC3, 0x44, 0x30, 0x30, 0x31 :: byte] = 5"
    by simp
  have p: "18 \<le> (20 :: nat)"
    by simp
  have n: "[0xC3, 0x44, 0x30, 0x30, 0x31] \<noteq> ascii ''CD001''"
    by (simp add: ascii_def)
  have "validate_volume_descriptor
     (fixture_image
        (fixture_pvd [0xC3, 0x44, 0x30, 0x30, 0x31]
           (spec_pad_nul 32 (ascii ''EL TORITO SPECIFICATION'')) 20)
        20 [] 20 []) = Inl (Unhandled UnicodeDecodeError)"
    by (simp add: fixture_validate [OF l3 tag_padded(2)])
  then have m: "main
     (fixture_image
        (fixture_pvd [0xC3, 0x44, 0x30, 0x30, 0x31]
           (spec_pad_nul 32 (ascii ''EL TORITO SPECIFICATION'')) 20)
        20 [] 20 []) = Inl (Unhandled UnicodeDecodeError)"
    by (simp add: main_def)
  have d: "main
     (fixture_image
        (fixture_pvd [0xC3, 0x44, 0x30, 0x30, 0x31]
           (spec_pad_nul 32 (ascii ''EL TORITO SPECIFICATION'')) 20)
        20 [] 20 []) \<noteq> Inl NotBootable"
    unfolding m by simp
  show ?thesis
    using n m d fixture_sector17_pvd
        [where pb = 20 and catalog = "[]" and start = 20 and payload = "[]",
          OF l3 tag_padded(2) p]
      fixture_pvd_fields(1) [OF l3 tag_padded(2)]
    by blast
qed

lemma leading_nul_tag:
  "length (0 # ascii ''EL TORITO SPECIFICATION'' @ replicate 8 0) = 32"
  "strip [0] (0 # ascii ''EL TORITO SPECIFICATION'' @ replicate 8 0)
     = ascii ''EL TORITO SPECIFICATION''"
  "spec_strip_nul (0 # ascii ''EL TORITO SPECIFICATION'' @ replicate 8 0)
     = 0 # ascii ''EL TORITO SPECIFICATION''"
proof -
  show "length (0 # ascii ''EL TORITO SPECIFICATION'' @ replicate 8 0) = 32"
    by (simp add: ascii_def)
  have r: "rev (0 # ascii ''EL TORITO SPECIFICATION'' @ replicate 8 0)
      = replicate 8 0 @ rev (0 # ascii ''EL TORITO SPECIFICATION'')"
    by simp
  have d: "dropWhile (\<lambda>b. b \<in> set [0]) (0 # ascii ''EL TORITO SPECIFICATION'' @ replicate 8 0)
      = ascii ''EL TORITO SPECIFICATION'' @ replicate 8 0"
    by (simp add: ascii_def)
  have "rev (dropWhile (\<lambda>b. b \<in> set [0]) (rev (ascii ''EL TORITO SPECIFICATION'' @ replicate 8 0)))
      = ascii ''EL TORITO SPECIFICATION''"
    by (simp add: dropWhile_replicate_append) (simp add: ascii_def)
  then show "strip [0] (0 # ascii ''EL TORITO SPECIFICATION'' @ replicate 8 0)
     = ascii ''EL TORITO SPECIFICATION''"
    unfolding strip_def d .
  have "dropWhile (\<lambda>b. b = 0) (rev (0 # ascii ''EL TORITO SPECIFICATION'' @ replicate 8 0))
      = rev (0 # ascii ''EL TORITO SPECIFICATION'')"
    unfolding r by (simp add: dropWhile_replicate_append) (simp add: ascii_def)
  then show "spec_strip_nul (0 # ascii ''EL TORITO SPECIFICATION'' @ replicate 8 0)
     = 0 # ascii ''EL TORITO SPECIFICATION''"
    unfolding spec_strip_nul_def by simp
qed

text \<open>
  C5, as the program has it. The tag is compared after \<^verbatim>\<open>strip\<close> has removed the NUL
  bytes at both of its ends; a tag without NUL bytes comes back unchanged from its padded
  field. When sector 17 holds at least 75 bytes, the identifier is ASCII and the stripped
  tag is ASCII and differs from \<^verbatim>\<open>EL TORITO SPECIFICATION\<close>, the result is the
  not-bootable error. With the identifier \<^verbatim>\<open>CD001\<close>, a tag whose stripped value is
  \<^verbatim>\<open>EL TORITO SPECIFICATION\<close>, in particular that tag followed only by NUL bytes, is
  accepted.
\<close>

theorem boot_system_tag_stripped:
  assumes "get_sector file 17 1 = Some sector" and "75 \<le> length sector"
  shows "(list_all (\<lambda>b. b \<noteq> 0) s \<longrightarrow> strip [0] (spec_pad_nul 32 s) = s)
    \<and> (list_all (\<lambda>b. b < 0x80) (take 5 (drop 1 sector))
          \<and> list_all (\<lambda>b. b < 0x80) (strip [0] (take 32 (drop 7 sector)))
          \<and> strip [0] (take 32 (drop 7 sector)) \<noteq> ascii ''EL TORITO SPECIFICATION''
        \<longrightarrow> validate_volume_descriptor file = Inl NotBootable)
    \<and> (take 5 (drop 1 sector) = ascii ''CD001''
          \<and> strip [0] (take 32 (drop 7 sector)) = ascii ''EL TORITO SPECIFICATION''
        \<longrightarrow> validate_volume_descriptor file = Inr (u32_le_at sector 71))
    \<and> (take 5 (drop 1 sector) = ascii ''CD001''
          \<and> take 32 (drop 7 sector) = spec_pad_nul 32 (ascii ''EL TORITO SPECIFICATION'')
        \<longrightarrow> validate_volume_descriptor file = Inr (u32_le_at sector 71))"
proof -
  have "strip [0] (spec_pad_nul 32 (ascii ''EL TORITO SPECIFICATION''))
      = ascii ''EL TORITO SPECIFICATION''"
    by (rule strip_nul_padded [OF tag_padded(6)])
  then show ?thesis
    using tag_padded(4,5) strip_nul_padded [of s 32]
    by (simp add: validate_sector [OF assms])
qed

theorem boot_system_tag_stripped_witness:
  "strip [0] (spec_pad_nul 32 (ascii ''ISOLINUX'')) = ascii ''ISOLINUX''
   \<and> validate_volume_descriptor
     (fixture_image
        (fixture_pvd (ascii ''CD001'') (spec_pad_nul 32 (ascii ''EL TORITO SPECIFICATIONS'')) 20)
        20 [] 20 []) = Inl NotBootable
   \<and> validate_volume_descriptor
     (fixture_image
        (fixture_pvd (ascii ''CD001'') (0 # ascii ''EL TORITO SPECIFICATION'' @ replicate 8 0) 20)
        20 [] 20 []) = Inr 20
   \<and> validate_volume_descriptor
     (fixture_image
        (fixture_pvd (ascii ''CD001'') (spec_pad_nul 32 (ascii ''EL TORITO SPECIFICATION'')) 20)
        20 [] 20 []) = Inr 20"
proof -
  let ?tag = "spec_pad_nul 32 (ascii ''EL TORITO SPECIFICATION'')"
  let ?tags = "spec_pad_nul 32 (ascii ''EL TORITO SPECIFICATIONS'')"
  let ?tagn = "0 # ascii ''EL TORITO SPECIFICATION'' @ replicate 8 0"
  have p: "18 \<le> (20 :: nat)" and u: "unat (20 :: byte) = 20"
    by simp_all
  note i = tag_padded(3)
  note t = tag_padded(2)
  note rd = fixture_sector17_pvd
    [where pb = 20 and catalog = "[]" and start = 20 and payload = "[]"]
  note ln = fixture_sector_fields [where pb = 20]
  have ts: "length ?tags = 32"
    by (simp add: spec_pad_nul_def ascii_def)
  have nz: "list_all (\<lambda>b. b \<noteq> 0) (ascii ''EL TORITO SPECIFICATIONS'')"
    and az: "list_all (\<lambda>b. b < 0x80) (ascii ''EL TORITO SPECIFICATIONS'')"
    and ni: "list_all (\<lambda>b. b \<noteq> 0) (ascii ''ISOLINUX'')"
    by (simp_all add: ascii_def)
  have ss: "strip [0] ?tags = ascii ''EL TORITO SPECIFICATIONS''"
    by (rule strip_nul_padded [OF nz])
  have ds: "ascii ''EL TORITO SPECIFICATIONS'' \<noteq> ascii ''EL TORITO SPECIFICATION''"
    by (simp add: ascii_eq_iff)
  have a: "strip [0] (spec_pad_nul 32 (ascii ''ISOLINUX'')) = ascii ''ISOLINUX''"
    using boot_system_tag_stripped [OF rd [OF i t p] ln [OF i t], of "ascii ''ISOLINUX''"] ni
    by blast
  have b: "validate_volume_descriptor
     (fixture_image (fixture_pvd (ascii ''CD001'') ?tags 20) 20 [] 20 []) = Inl NotBootable"
    using boot_system_tag_stripped [OF rd [OF i ts p] ln [OF i ts]] tag_padded(4) az ds
    unfolding fixture_pvd_fields [OF i ts] ss by blast
  have c: "validate_volume_descriptor
     (fixture_image (fixture_pvd (ascii ''CD001'') ?tagn 20) 20 [] 20 []) = Inr 20"
    using boot_system_tag_stripped [OF rd [OF i leading_nul_tag(1) p] ln [OF i leading_nul_tag(1)]]
    unfolding fixture_pvd_fields [OF i leading_nul_tag(1)] leading_nul_tag(2) u by blast
  have d: "validate_volume_descriptor
     (fixture_image (fixture_pvd (ascii ''CD001'') ?tag 20) 20 [] 20 []) = Inr 20"
    using boot_system_tag_stripped [OF rd [OF i t p] ln [OF i t]]
    unfolding fixture_pvd_fields [OF i t] u by blast
  show ?thesis
    using a b c d by blast
qed

theorem boot_system_tag_stripped_counterexample:
  "spec_strip_nul (0 # ascii ''EL TORITO SPECIFICATION'' @ replicate 8 0)
      \<noteq> ascii ''EL TORITO SPECIFICATION''
   \<and> take 32 (drop 7 (fixture_pvd (ascii ''CD001'')
          (0 # ascii ''EL TORITO SPECIFICATION'' @ replicate 8 0) 20 @ replicate 437 0))
      = 0 # ascii ''EL TORITO SPECIFICATION'' @ replicate 8 0
   \<and> validate_volume_descriptor
     (fixture_image
        (fixture_pvd (ascii ''CD001'') (0 # ascii ''EL TORITO SPECIFICATION'' @ replicate 8 0) 20)
        20 [] 20 []) = Inr 20"
proof -
  have p: "18 \<le> (20 :: nat)"
    by simp
  have "spec_strip_nul (0 # ascii ''EL TORITO SPECIFICATION'' @ replicate 8 0)
      \<noteq> ascii ''EL TORITO SPECIFICATION''"
    unfolding leading_nul_tag(3) by (simp add: ascii_def)
  moreover have "validate_volume_descriptor
     (fixture_image
        (fixture_pvd (ascii ''CD001'') (0 # ascii ''EL TORITO SPECIFICATION'' @ replicate 8 0) 20)
        20 [] 20 []) = Inr 20"
    unfolding fixture_validate [OF tag_padded(3) leading_nul_tag(1) p] leading_nul_tag(2)
    using tag_padded(4,5) by simp
  ultimately show ?thesis
    using fixture_pvd_fields(2) [OF tag_padded(3) leading_nul_tag(1)] by blast
qed

text \<open>
  C1 fails on the program. The image of the scenario (a valid descriptor in sector 17 that
  points to sector 20, a valid Validation Entry and an Initial/Default Entry with boot
  indicator 0x88, media type 0, sector count 10 and start sector 25 in sector 20, and 5120
  payload bytes at byte offset 51200) ends in the generic handler, because the format of
  line 123 is refused. The lines after the unpacking, given the values of the entry, would
  read exactly the 5120 payload bytes.
\<close>

theorem synthetic_image_not_extracted:
  "main
     (fixture_image
        (fixture_pvd (ascii ''CD001'') (spec_pad_nul 32 (ascii ''EL TORITO SPECIFICATION'')) 20)
        20 (fixture_catalog 1 0x55 0xAA 0x88 0 10 25) 25 (replicate 5120 0xAB))
     = Inl (Unhandled StructError)
   \<and> locate_and_read_image
     (fixture_image
        (fixture_pvd (ascii ''CD001'') (spec_pad_nul 32 (ascii ''EL TORITO SPECIFICATION'')) 20)
        20 (fixture_catalog 1 0x55 0xAA 0x88 0 10 25) 25 (replicate 5120 0xAB)) 0 10 25
     = Inr (Some (replicate 5120 0xAB))"
proof -
  let ?pvd = "fixture_pvd (ascii ''CD001'') (spec_pad_nul 32 (ascii ''EL TORITO SPECIFICATION'')) 20"
  let ?cat = "fixture_catalog 1 0x55 0xAA 0x88 0 10 25"
  let ?f = "fixture_image ?pvd 20 ?cat 25 (replicate 5120 0xAB)"
  have u: "unat (20 :: byte) = 20"
    by simp
  have "18 \<le> unat (20 :: byte)" and "unat (20 :: byte) < 25"
    by simp_all
  from fixture_main [OF this, of 1 "0x55" "0xAA" "0x88" 0 10 25 "replicate 5120 0xAB"]
  have a: "main ?f = Inl (Unhandled StructError)"
    unfolding u by simp
  have len: "length ?pvd = 75"
    by (rule fixture_pvd_fields(4) [OF tag_padded(3) tag_padded(2)])
  have "get_sector ?f 25 10 = Some (take (512 * 10) (replicate 5120 0xAB))"
    by (rule fixture_payload_sector) (simp_all add: len fixture_catalog_fields(1))
  then have "truthy (get_sector ?f 25 10) = Some (replicate 5120 0xAB)"
    by (simp add: truthy_def)
  then have b: "locate_and_read_image ?f 0 10 25 = Inr (Some (replicate 5120 0xAB))"
    by (simp add: locate_and_read_image_def resolved_count_def media_count_def)
  show ?thesis
    using a b by blast
qed

text \<open>
  C7 fails on the program. An image with a valid descriptor, a valid Validation Entry and
  the boot indicator 0 does not end with the message of line 128: the unpacking of line
  123 raises first, and the program ends in the generic handler.
\<close>

theorem boot_indicator_not_tested:
  "fixture_catalog 1 0x55 0xAA 0 0 10 25 ! 32 = 0
   \<and> main
     (fixture_image
        (fixture_pvd (ascii ''CD001'') (spec_pad_nul 32 (ascii ''EL TORITO SPECIFICATION'')) 20)
        20 (fixture_catalog 1 0x55 0xAA 0 0 10 25) 25 [])
     = Inl (Unhandled StructError)
   \<and> main
     (fixture_image
        (fixture_pvd (ascii ''CD001'') (spec_pad_nul 32 (ascii ''EL TORITO SPECIFICATION'')) 20)
        20 (fixture_catalog 1 0x55 0xAA 0 0 10 25) 25 [])
     \<noteq> Inl BootIndicatorNot88"
proof -
  have u: "unat (20 :: byte) = 20"
    by simp
  have "18 \<le> unat (20 :: byte)" and "unat (20 :: byte) < 25"
    by simp_all
  from fixture_main [OF this, of 1 "0x55" "0xAA" 0 0 10 25 "[]"]
  have "main
     (fixture_image
        (fixture_pvd (ascii ''CD001'') (spec_pad_nul 32 (ascii ''EL TORITO SPECIFICATION'')) 20)
        20 (fixture_catalog 1 0x55 0xAA 0 0 10 25) 25 [])
     = Inl (Unhandled StructError)"
    unfolding u by simp
  moreover have "fixture_catalog 1 0x55 0xAA 0 0 10 25 ! 32 = 0"
    by (simp add: fixture_catalog_def nth_append)
  ultimately show ?thesis
    by simp
qed

text \<open>
  C8 fails on the program. An image with a valid descriptor, a valid Validation Entry and
  an Initial/Default Entry with boot indicator 0x88 and media type 1 gets no sector count
  and no extraction: the unpacking of line 123 raises and the program ends in the generic
  handler. Lines 134 to 154, given the values of that entry, would resolve the count 2400.
\<close>

theorem floppy_image_not_sized:
  "main
     (fixture_image
        (fixture_pvd (ascii ''CD001'') (spec_pad_nul 32 (ascii ''EL TORITO SPECIFICATION'')) 20)
        20 (fixture_catalog 1 0x55 0xAA 0x88 1 10 25) 25 [])
     = Inl (Unhandled StructError)
   \<and> resolved_count
     (fixture_image
        (fixture_pvd (ascii ''CD001'') (spec_pad_nul 32 (ascii ''EL TORITO SPECIFICATION'')) 20)
        20 (fixture_catalog 1 0x55 0xAA 0x88 1 10 25) 25 []) 1 10 25
     = Inr 2400"
proof -
  have u: "unat (20 :: byte) = 20"
    by simp
  have "18 \<le> unat (20 :: byte)" and "unat (20 :: byte) < 25"
    by simp_all
  from fixture_main [OF this, of 1 "0x55" "0xAA" "0x88" 1 10 25 "[]"]
  have "main
     (fixture_image
        (fixture_pvd (ascii ''CD001'') (spec_pad_nul 32 (ascii ''EL TORITO SPECIFICATION'')) 20)
        20 (fixture_catalog 1 0x55 0xAA 0x88 1 10 25) 25 [])
     = Inl (Unhandled StructError)"
    unfolding u by simp
  then show ?thesis
    using sizing_floppy_and_no_emulation by blast
qed

text \<open>
  C9 fails on the program. An image with a valid descriptor, a valid Validation Entry and
  an Initial/Default Entry with boot indicator 0x88, media type 4 and start sector 25,
  whose sector 25 holds the partition fields 2048 and 4096 at offsets 454 and 458, gets
  no sector count: the unpacking of line 123 raises, the sector is never read and the
  program ends in the generic handler. Lines 146 to 154, given the values of that entry,
  would resolve the count 6144.
\<close>

theorem harddisk_image_not_sized:
  "main
     (fixture_image
        (fixture_pvd (ascii ''CD001'') (spec_pad_nul 32 (ascii ''EL TORITO SPECIFICATION'')) 20)
        20 (fixture_catalog 1 0x55 0xAA 0x88 4 10 25) 25
        (disk_sector [0, 8, 0, 0] [0, 16, 0, 0]))
     = Inl (Unhandled StructError)
   \<and> resolved_count
     (fixture_image
        (fixture_pvd (ascii ''CD001'') (spec_pad_nul 32 (ascii ''EL TORITO SPECIFICATION'')) 20)
        20 (fixture_catalog 1 0x55 0xAA 0x88 4 10 25) 25
        (disk_sector [0, 8, 0, 0] [0, 16, 0, 0])) 4 10 25
     = Inr 6144"
proof -
  let ?pvd = "fixture_pvd (ascii ''CD001'') (spec_pad_nul 32 (ascii ''EL TORITO SPECIFICATION'')) 20"
  let ?cat = "fixture_catalog 1 0x55 0xAA 0x88 4 10 25"
  let ?mbr = "disk_sector [0, 8, 0, 0] [0, 16, 0, 0]"
  let ?f = "fixture_image ?pvd 20 ?cat 25 ?mbr"
  have u: "unat (20 :: byte) = 20"
    by simp
  have "18 \<le> unat (20 :: byte)" and "unat (20 :: byte) < 25"
    by simp_all
  from fixture_main [OF this, of 1 "0x55" "0xAA" "0x88" 4 10 25 ?mbr]
  have a: "main ?f = Inl (Unhandled StructError)"
    unfolding u by simp
  have len: "length ?pvd = 75"
    by (rule fixture_pvd_fields(4) [OF tag_padded(3) tag_padded(2)])
  have "get_sector ?f 25 1 = Some (take (512 * 1) ?mbr)"
    by (rule fixture_payload_sector) (simp_all add: len fixture_catalog_fields(1))
  then have g: "get_sector ?f 25 1 = Some ?mbr"
    by (simp add: disk_sector_fields(3))
  have l: "462 \<le> length ?mbr"
    by (simp add: disk_sector_fields(3))
  have "resolved_count ?f 4 10 25 = Inr 6144"
    using sizing_harddisk [OF g l, of 10] by (simp add: disk_sector_fields)
  then show ?thesis
    using a by blast
qed

text \<open>
  C10 fails on the program. An image with a valid descriptor, a valid Validation Entry and
  an Initial/Default Entry with boot indicator 0x88, the unknown media type 9 and the
  declared sector count 3 is not extracted with the declared count: the unpacking of line
  123 raises and the program ends in the generic handler. Lines 134 to 162, given the
  values of that entry, would leave the count of the media type at 0, fall back to the
  declared count 3 and read the 1536 bytes of the image.
\<close>

theorem declared_count_not_used:
  "main
     (fixture_image
        (fixture_pvd (ascii ''CD001'') (spec_pad_nul 32 (ascii ''EL TORITO SPECIFICATION'')) 20)
        20 (fixture_catalog 1 0x55 0xAA 0x88 9 3 21) 21 (replicate 1536 0x5A))
     = Inl (Unhandled StructError)
   \<and> media_count
     (fixture_image
        (fixture_pvd (ascii ''CD001'') (spec_pad_nul 32 (ascii ''EL TORITO SPECIFICATION'')) 20)
        20 (fixture_catalog 1 0x55 0xAA 0x88 9 3 21) 21 (replicate 1536 0x5A)) 9 21
     = Inr 0
   \<and> locate_and_read_image
     (fixture_image
        (fixture_pvd (ascii ''CD001'') (spec_pad_nul 32 (ascii ''EL TORITO SPECIFICATION'')) 20)
        20 (fixture_catalog 1 0x55 0xAA 0x88 9 3 21) 21 (replicate 1536 0x5A)) 9 3 21
     = Inr (Some (replicate 1536 0x5A))"
proof -
  let ?pvd = "fixture_pvd (ascii ''CD001'') (spec_pad_nul 32 (ascii ''EL TORITO SPECIFICATION'')) 20"
  let ?cat = "fixture_catalog 1 0x55 0xAA 0x88 9 3 21"
  let ?f = "fixture_image ?pvd 20 ?cat 21 (replicate 1536 0x5A)"
  have u: "unat (20 :: byte) = 20"
    by simp
  have "18 \<le> unat (20 :: byte)" and "unat (20 :: byte) < 21"
    by simp_all
  from fixture_main [OF this, of 1 "0x55" "0xAA" "0x88" 9 3 21 "replicate 1536 0x5A"]
  have a: "main ?f = Inl (Unhandled StructError)"
    unfolding u by simp
  have m: "media_count ?f 9 21 = Inr 0"
    by (simp add: media_count_def)
  have len: "length ?pvd = 75"
    by (rule fixture_pvd_fields(4) [OF tag_padded(3) tag_padded(2)])
  have "get_sector ?f 21 3 = Some (take (512 * 3) (replicate 1536 0x5A))"
    by (rule fixture_payload_sector) (simp_all add: len fixture_catalog_fields(1))
  then have "truthy (get_sector ?f 21 3) = Some (replicate 1536 0x5A)"
    by (simp add: truthy_def)
  then have b: "locate_and_read_image ?f 9 3 21 = Inr (Some (replicate 1536 0x5A))"
    by (simp add: locate_and_read_image_def resolved_count_def m)
  show ?thesis
    using a m b by blast
qed

end
